theory Spec2Isabelle
  imports Complex_Main "HOL-Library.AList" "HOL-Library.Char_ord"
    "HOL-Library.List_Lexorder" "HOL-Library.Product_Lexorder"
begin

section \<open>Time\<close>

text \<open>
  A Python \<open>datetime\<close> is modelled as the number of microseconds since
  0001-01-01 00:00:00, which is a Monday in the proleptic Gregorian calendar, so that
  \<open>weekday()\<close> is the day number modulo 7 with Monday = 0. A \<open>timedelta\<close> is a
  number of microseconds. The range limit of \<open>datetime\<close> (year 9999) is not modelled.
\<close>

type_synonym datetime = int
type_synonym timedelta = int

definition usec_per_second :: int where "usec_per_second = 1000000"
definition usec_per_minute :: int where "usec_per_minute = 60000000"
definition usec_per_hour :: int where "usec_per_hour = 3600000000"
definition usec_per_day :: int where "usec_per_day = 86400000000"

definition minutes :: "int \<Rightarrow> timedelta" where
  "minutes n = n * usec_per_minute"

definition days :: "int \<Rightarrow> timedelta" where
  "days n = n * usec_per_day"

definition hours :: "int \<Rightarrow> timedelta" where
  "hours n = n * usec_per_hour"

text \<open>\<open>datetime(y, m, d, hh, mm)\<close> from the day number of the date.\<close>

definition at_day :: "int \<Rightarrow> int \<Rightarrow> int \<Rightarrow> datetime" where
  "at_day d hh mm = days d + hours hh + minutes mm"

definition midnight :: "datetime \<Rightarrow> datetime" where
  \<comment> \<open>\<open>t.replace(hour=0, minute=0, second=0, microsecond=0)\<close>\<close>
  "midnight t = (t div usec_per_day) * usec_per_day"

definition date_of :: "datetime \<Rightarrow> int" where
  \<comment> \<open>\<open>t.date()\<close>, as a day number\<close>
  "date_of t = t div usec_per_day"

definition weekday :: "datetime \<Rightarrow> int" where
  "weekday t = (t div usec_per_day) mod 7"

definition hour_of :: "datetime \<Rightarrow> int" where
  "hour_of t = (t div usec_per_hour) mod 24"

definition minute_of :: "datetime \<Rightarrow> int" where
  "minute_of t = (t div usec_per_minute) mod 60"

definition replace_minute :: "datetime \<Rightarrow> int \<Rightarrow> datetime" where
  \<comment> \<open>\<open>t.replace(minute=m)\<close> for \<open>0 \<le> m < 60\<close>\<close>
  "replace_minute t m = t - minutes (minute_of t) + minutes m"

definition replace_time_0600 :: "datetime \<Rightarrow> datetime" where
  \<comment> \<open>\<open>t.replace(hour=6, minute=0, second=0, microsecond=0)\<close>\<close>
  "replace_time_0600 t = midnight t + hours 6"

section \<open>Strings\<close>

text \<open>
  Characters are code points below 256. \<open>str.strip()\<close> removes the characters for which
  \<open>str.isspace()\<close> holds from both ends.
\<close>

definition is_space :: "char \<Rightarrow> bool" where
  "is_space c = (let n = (of_char c :: nat) in
     (9 \<le> n \<and> n \<le> 13) \<or> (28 \<le> n \<and> n \<le> 32) \<or> n = 133 \<or> n = 160)"

definition strip :: "string \<Rightarrow> string" where
  "strip s = rev (dropWhile is_space (rev (dropWhile is_space s)))"

section \<open>Relationship types and constraint checking\<close>

definition mappings :: "(string \<times> string) list" where
  "mappings =
    [(''FS'', ''Finish <= Start''),
     (''Finish-Start'', ''Finish <= Start''),
     (''F-S'', ''Finish <= Start''),
     (''F=S'', ''Finish = Start''),
     (''Finish=Start'', ''Finish = Start''),
     (''FF'', ''Finish <= Finish''),
     (''Finish-Finish'', ''Finish <= Finish''),
     (''F-F'', ''Finish <= Finish''),
     (''SS'', ''Start <= Start''),
     (''Start-Start'', ''Start <= Start''),
     (''S-S'', ''Start <= Start''),
     (''S=S'', ''Start = Start''),
     (''Start=Start'', ''Start = Start''),
     (''SF'', ''Start <= Finish''),
     (''Start-Finish'', ''Start <= Finish''),
     (''S-F'', ''Start <= Finish'')]"

definition normalize_relationship_type :: "string option \<Rightarrow> string" where
  \<comment> \<open>\<open>None\<close> and the empty string are the falsy arguments\<close>
  "normalize_relationship_type relationship =
     (case relationship of
        None \<Rightarrow> ''Finish <= Start''
      | Some r \<Rightarrow>
          if r = [] then ''Finish <= Start''
          else (let r' = strip r in
                case map_of mappings r' of Some v \<Rightarrow> v | None \<Rightarrow> r'))"

text \<open>
  The three fields of a schedule entry that constraint checking reads. An argument that
  is \<open>None\<close> or an empty dict is \<open>None\<close> here.
\<close>

record sched_times =
  st_start :: datetime
  st_end :: datetime
  st_duration :: int

definition check_constraint_satisfied ::
  "sched_times option \<Rightarrow> sched_times option \<Rightarrow> string option
     \<Rightarrow> bool \<times> datetime option \<times> datetime option" where
  "check_constraint_satisfied first_schedule second_schedule relationship =
     (case (first_schedule, second_schedule) of
        (Some f, Some s) \<Rightarrow>
          (let first_start = st_start f; first_end = st_end f;
               second_start = st_start s; second_end = st_end s;
               second_duration = st_duration s;
               rel = normalize_relationship_type relationship
           in
           if rel = ''Finish <= Start'' then
             (first_end \<le> second_start, Some first_end,
              Some (first_end + minutes second_duration))
           else if rel = ''Finish = Start'' then
             (\<bar>first_end - second_start\<bar> < 60 * usec_per_second, Some first_end,
              Some (first_end + minutes second_duration))
           else if rel = ''Finish <= Finish'' then
             (let earliest_end = max first_end (second_start + minutes second_duration)
              in (first_end \<le> second_end, Some (earliest_end - minutes second_duration),
                  Some earliest_end))
           else if rel = ''Start <= Start'' then
             (first_start \<le> second_start, Some first_start,
              Some (first_start + minutes second_duration))
           else if rel = ''Start = Start'' then
             (\<bar>first_start - second_start\<bar> < 60 * usec_per_second, Some first_start,
              Some (first_start + minutes second_duration))
           else if rel = ''Start <= Finish'' then
             (let earliest_end = max first_start (second_start + minutes second_duration)
              in (first_start \<le> second_end, Some (earliest_end - minutes second_duration),
                  Some earliest_end))
           else
             (first_end \<le> second_start, Some first_end,
              Some (first_end + minutes second_duration)))
      | _ \<Rightarrow> (True, None, None))"

text \<open>The keys of the alias table and the six normalized names.\<close>

definition recognized_aliases :: "string set" where
  "recognized_aliases = set (map fst mappings)"

definition canonical_names :: "string set" where
  "canonical_names = {''Finish <= Start'', ''Finish = Start'', ''Finish <= Finish'',
     ''Start <= Start'', ''Start = Start'', ''Start <= Finish''}"

section \<open>The scheduler object\<close>

text \<open>
  Python dicts are association lists with distinct keys, in insertion order:
  \<open>d[k]\<close> and \<open>d.get(k)\<close> are \<open>map_of d k\<close>, \<open>d[k] = v\<close> is \<open>AList.update k v d\<close>
  (in place for a key that is there, appended otherwise), \<open>len(d)\<close> is \<open>length d\<close>.
\<close>

type_synonym ('k, 'v) dict = "('k \<times> 'v) list"

definition get_default :: "('k, 'v) dict \<Rightarrow> 'k \<Rightarrow> 'v \<Rightarrow> 'v" where
  \<comment> \<open>\<open>d.get(k, default)\<close>\<close>
  "get_default d k dflt = (case map_of d k of Some v \<Rightarrow> v | None \<Rightarrow> dflt)"

definition keys :: "('k, 'v) dict \<Rightarrow> 'k list" where
  "keys d = map fst d"

text \<open>
  A dict entry that may be absent, present with value \<open>None\<close>, or present with a string:
  \<open>task_info.get('team_skill', x)\<close> is \<open>x\<close> only in the first case.
\<close>

datatype pyval = Absent | PyNone | PyStr string

text \<open>
  An entry of \<open>self.tasks\<close>. The key \<open>'team'\<close> is always there and may hold \<open>None\<close>
  (a quality inspection without a team); \<open>'is_customer'\<close> is read with default
  \<open>False\<close>; \<open>'product'\<close> is always there and may hold \<open>None\<close>.
\<close>

record task_info =
  ti_duration :: int
  ti_team :: "string option"
  ti_skill :: "string option"
  ti_team_skill :: pyval
  ti_mechanics_required :: int
  ti_is_quality :: bool
  ti_is_customer :: bool
  ti_task_type :: string
  ti_product :: "string option"

text \<open>
  An entry of \<open>self.task_schedule\<close>, as \<open>schedule_tasks\<close> writes it (the key
  \<open>'original_task_id'\<close>, which no modelled function reads, is left out).
\<close>

record sched_entry =
  se_start_time :: datetime
  se_end_time :: datetime
  se_team :: "string option"
  se_team_skill :: string
  se_skill :: "string option"
  se_product :: "string option"
  se_duration :: int
  se_mechanics_required :: int
  se_is_quality :: bool
  se_is_customer :: bool
  se_task_type :: string
  se_shift :: string

record constraint =
  c_First :: string
  c_Second :: string
  c_Relationship :: string

text \<open>
  \<open>shift_hours\<close> holds, for each shift name, the result of \<open>_parse_shift_time\<close> on
  the start and on the end string of the table: \<open>((start_hour, start_min), (end_hour,
  end_min))\<close>. \<open>late_part_delay\<close> is \<open>timedelta(days=self.late_part_delay_days)\<close>.
\<close>

record scheduler =
  tasks :: "(string, task_info) dict"
  quality_inspections :: "(string, string option) dict"
  late_part_tasks :: "string list"
  rework_tasks :: "string list"
  on_dock_dates :: "(string, datetime) dict"
  team_shifts :: "(string, string list) dict"
  team_capacity :: "(string, int) dict"
  quality_team_shifts :: "(string, string list) dict"
  quality_team_capacity :: "(string, int) dict"
  customer_team_shifts :: "(string, string list) dict"
  customer_team_capacity :: "(string, int) dict"
  shift_hours :: "(string, (int \<times> int) \<times> (int \<times> int)) dict"
  delivery_dates :: "(string, datetime) dict"
  holidays :: "(string, datetime list) dict"
  task_schedule :: "(string, sched_entry) dict"
  dynamic_constraints_cache :: "constraint list option"
  critical_path_cache :: "(string, int) dict"
  original_team_capacity :: "(string, int) dict"
  original_quality_capacity :: "(string, int) dict"
  late_part_delay :: timedelta

datatype error = ValueError | KeyError | TypeError | RecursionError

section \<open>Calendar and shift arithmetic\<close>

definition is_working_day :: "scheduler \<Rightarrow> datetime \<Rightarrow> string option \<Rightarrow> bool" where
  "is_working_day self date product_line =
     (if weekday date \<ge> 5 then False
      else case product_line of
        None \<Rightarrow> True
      | Some p \<Rightarrow>
          if p = [] then True
          else (case map_of (holidays self) p of
                  None \<Rightarrow> True
                | Some hs \<Rightarrow> \<not> (date_of date \<in> set (map date_of hs))))"

definition replace_hour_minute :: "datetime \<Rightarrow> int \<Rightarrow> int \<Rightarrow> error + datetime" where
  \<comment> \<open>\<open>d.replace(hour=h, minute=m)\<close> on a datetime \<open>d\<close> at midnight\<close>
  "replace_hour_minute d h m =
     (if 0 \<le> h \<and> h < 24 \<and> 0 \<le> m \<and> m < 60 then Inr (d + hours h + minutes m)
      else Inl ValueError)"

definition round_up_15 :: "datetime \<Rightarrow> datetime" where
  \<comment> \<open>the rounding step of the slot search: only the minute field is rounded\<close>
  "round_up_15 t =
     (let mins = minute_of t in
      if mins mod 15 \<noteq> 0 then
        (let rounded_minutes = ((mins div 15) + 1) * 15 in
         if rounded_minutes \<ge> 60 then replace_minute t 0 + hours 1
         else replace_minute t rounded_minutes)
      else t)"

text \<open>
  The boundaries of a shift on the day \<open>days_ahead\<close> days after \<open>current_time\<close>, as the
  slot search computes them; \<open>None\<close> when the shift has no entry in \<open>shift_hours\<close>.
\<close>

definition shift_bounds ::
  "scheduler \<Rightarrow> datetime \<Rightarrow> nat \<Rightarrow> string \<Rightarrow> error + (datetime \<times> datetime) option" where
  "shift_bounds self current_time days_ahead shift =
     (let check_date = midnight (current_time + days (int days_ahead)) in
      case map_of (shift_hours self) shift of
        None \<Rightarrow> Inr None
      | Some ((start_hour, start_min), (end_hour, end_min)) \<Rightarrow>
          if shift = ''3rd'' then
            (if days_ahead = 0 \<and> hour_of current_time < 6
             then Inr (Some (check_date - days 1 + hours 23, check_date + hours 6))
             else Inr (Some (check_date + hours 23, check_date + days 1 + hours 6)))
          else
            (case replace_hour_minute check_date start_hour start_min of
               Inl e \<Rightarrow> Inl e
             | Inr shift_start \<Rightarrow>
                 (case replace_hour_minute check_date end_hour end_min of
                    Inl e \<Rightarrow> Inl e
                  | Inr shift_end \<Rightarrow> Inr (Some (shift_start, shift_end)))))"

section \<open>Capacity queries\<close>

datatype team_kind = Mechanic | Quality | Customer

definition kind_of :: "bool \<Rightarrow> bool \<Rightarrow> team_kind" where
  \<comment> \<open>\<open>is_customer\<close> is tested before \<open>is_quality\<close>\<close>
  "kind_of is_quality is_customer =
     (if is_customer then Customer else if is_quality then Quality else Mechanic)"

definition before_paren :: "string \<Rightarrow> string" where
  \<comment> \<open>\<open>team.split('(')[0]\<close>\<close>
  "before_paren team = takeWhile (\<lambda>c. c \<noteq> CHR ''('') team"

definition capacity_and_shifts :: "scheduler \<Rightarrow> team_kind \<Rightarrow> string \<Rightarrow> int \<times> string list" where
  "capacity_and_shifts self kind team =
     (case kind of
        Customer \<Rightarrow> (get_default (customer_team_capacity self) team 0,
                      get_default (customer_team_shifts self) team [''1st''])
      | Quality \<Rightarrow> (get_default (quality_team_capacity self) team 0,
                     get_default (quality_team_shifts self) team [''1st''])
      | Mechanic \<Rightarrow>
          (let base_team = (if CHR ''('' \<in> set team then strip (before_paren team) else team)
           in (get_default (team_capacity self) team 0,
               get_default (team_shifts self) base_team
                 (get_default (team_shifts self) team [''1st'']))))"

definition counts_against :: "team_kind \<Rightarrow> string \<Rightarrow> sched_entry \<Rightarrow> bool" where
  \<comment> \<open>the team test of the conflict count; \<open>scheduled_team\<close> is the entry's \<open>team_skill\<close>\<close>
  "counts_against kind team e =
     (case kind of
        Customer \<Rightarrow> se_team_skill e = team
      | Quality \<Rightarrow> se_team_skill e = team
      | Mechanic \<Rightarrow> se_team_skill e = team \<or> se_team e = Some team)"

definition conflicts_in ::
  "(string, sched_entry) dict \<Rightarrow> team_kind \<Rightarrow> string \<Rightarrow> datetime \<Rightarrow> datetime \<Rightarrow> int" where
  "conflicts_in sched kind team earliest_in_shift task_end =
     sum_list (map (\<lambda>(task_id, e).
        if counts_against kind team e \<and>
           se_start_time e < task_end \<and> se_end_time e > earliest_in_shift
        then se_mechanics_required e else 0) sched)"

text \<open>
  A \<open>for\<close> loop whose body either continues (\<open>Inr None\<close>), returns a value
  (\<open>Inr (Some r)\<close>) or raises (\<open>Inl e\<close>).
\<close>

fun first_result :: "('a \<Rightarrow> error + 'r option) \<Rightarrow> 'a list \<Rightarrow> error + 'r option" where
  "first_result body [] = Inr None"
| "first_result body (x # xs) =
     (case body x of
        Inl e \<Rightarrow> Inl e
      | Inr (Some r) \<Rightarrow> Inr (Some r)
      | Inr None \<Rightarrow> first_result body xs)"

definition try_shift ::
  "scheduler \<Rightarrow> datetime \<Rightarrow> team_kind \<Rightarrow> string \<Rightarrow> int \<Rightarrow> int \<Rightarrow> int \<Rightarrow> nat \<Rightarrow> string
     \<Rightarrow> error + (datetime \<times> string) option" where
  "try_shift self current_time kind team capacity mechanics_needed duration days_ahead shift =
     (case shift_bounds self current_time days_ahead shift of
        Inl e \<Rightarrow> Inl e
      | Inr None \<Rightarrow> Inr None
      | Inr (Some (shift_start, shift_end)) \<Rightarrow>
          if shift_end \<le> current_time then Inr None
          else
            (let earliest_in_shift = round_up_15 (max shift_start current_time);
                 task_end = earliest_in_shift + minutes duration
             in if task_end > shift_end then Inr None
                else if capacity -
                        conflicts_in (task_schedule self) kind team earliest_in_shift task_end
                        \<ge> mechanics_needed
                then Inr (Some (earliest_in_shift, shift))
                else Inr None))"

definition max_days_ahead :: nat where "max_days_ahead = 30"

definition get_next_working_time_with_capacity ::
  "scheduler \<Rightarrow> datetime \<Rightarrow> string option \<Rightarrow> string \<Rightarrow> int \<Rightarrow> int \<Rightarrow> bool \<Rightarrow> bool
     \<Rightarrow> error + (datetime \<times> string) option" where
  "get_next_working_time_with_capacity self current_time product_line team mechanics_needed
       duration is_quality is_customer =
     (let kind = kind_of is_quality is_customer;
          (capacity, shifts) = capacity_and_shifts self kind team
      in if capacity = 0 \<or> mechanics_needed > capacity then Inr None
         else first_result
           (\<lambda>days_ahead.
              if \<not> is_working_day self
                     (midnight (current_time + days (int days_ahead))) product_line
              then Inr None
              else first_result
                     (try_shift self current_time kind team capacity mechanics_needed
                        duration days_ahead) shifts)
           [0..<max_days_ahead])"

section \<open>The slot search, as the specification words it\<close>



section \<open>Example data\<close>

text \<open>The scheduler as \<open>__init__\<close> leaves it, and the start datum 2025-08-22 06:00.\<close>

definition init_scheduler :: scheduler where
  "init_scheduler = \<lparr>tasks = [], quality_inspections = [], late_part_tasks = [],
     rework_tasks = [], on_dock_dates = [], team_shifts = [], team_capacity = [],
     quality_team_shifts = [], quality_team_capacity = [], customer_team_shifts = [],
     customer_team_capacity = [],
     shift_hours = [],
     delivery_dates = [], holidays = [], task_schedule = [],
     dynamic_constraints_cache = None, critical_path_cache = [],
     original_team_capacity = [], original_quality_capacity = [],
     late_part_delay = days 1\<rparr>"

definition start_date :: datetime where
  "start_date = at_day 739484 6 0"

definition one_team :: scheduler where
  "one_team = init_scheduler\<lparr>team_capacity := [(''M1'', 1)], team_shifts := [(''M1'', [''1st''])],
      shift_hours := [(''1st'', ((6, 0), (14, 30)))]\<rparr>"

section \<open>Makespan\<close>

definition any_product_works :: "scheduler \<Rightarrow> int \<Rightarrow> bool" where
  \<comment> \<open>the inner loop over \<open>delivery_dates.keys()\<close>, on the midnight of day \<open>current\<close>\<close>
  "any_product_works self current =
     list_ex (\<lambda>product. is_working_day self (days current) (Some product))
       (keys (delivery_dates self))"

function count_working_days :: "scheduler \<Rightarrow> int \<Rightarrow> int \<Rightarrow> int \<Rightarrow> int" where
  "count_working_days self current end_date working_days =
     (if current \<le> end_date
      then count_working_days self (current + 1) end_date
             (if any_product_works self current then working_days + 1 else working_days)
      else working_days)"
  by pat_completeness auto
termination
  by (relation "measure (\<lambda>(self, current, end_date, working_days). nat (end_date + 1 - current))")
    auto

declare count_working_days.simps [simp del]

definition earliest_start_time :: "(string, sched_entry) dict \<Rightarrow> datetime" where
  \<comment> \<open>\<open>min(sched['start_time'] for ...)\<close> over a non-empty schedule\<close>
  "earliest_start_time sched = Min (set (map (\<lambda>(k, e). se_start_time e) sched))"

definition latest_end_time :: "(string, sched_entry) dict \<Rightarrow> datetime" where
  "latest_end_time sched = Max (set (map (\<lambda>(k, e). se_end_time e) sched))"

definition calculate_makespan :: "scheduler \<Rightarrow> int" where
  "calculate_makespan self =
     (if task_schedule self = [] then 0
      else if length (task_schedule self) < length (tasks self) then 999999
      else count_working_days self
             (date_of (earliest_start_time (task_schedule self)))
             (date_of (latest_end_time (task_schedule self))) 0)"

definition one_task :: scheduler where
  "one_task = one_team\<lparr>tasks := [(''P_1'', \<lparr>ti_duration = 120, ti_team = Some ''M1'',
       ti_skill = None, ti_team_skill = PyStr ''M1'', ti_mechanics_required = 1,
       ti_is_quality = False, ti_is_customer = False, ti_task_type = ''Production'',
       ti_product = Some ''P''\<rparr>)],
     delivery_dates := [(''P'', at_day 739494 0 0)]\<rparr>"

definition one_task_placed :: scheduler where
  "one_task_placed = one_task\<lparr>task_schedule := [(''P_1'',
      \<lparr>se_start_time = start_date, se_end_time = start_date + minutes 120,
       se_team = Some ''M1'', se_team_skill = ''M1'', se_skill = None,
       se_product = Some ''P'', se_duration = 120, se_mechanics_required = 1,
       se_is_quality = False, se_is_customer = False, se_task_type = ''Production'',
       se_shift = ''1st''\<rparr>)]\<rparr>"

section \<open>Dependencies and priorities\<close>

text \<open>
  \<open>build_dynamic_dependencies\<close> returns the memoized list when there is one. Otherwise
  it composes the list from the tables read at load time, which no modelled operation
  changes; \<open>resolved\<close> stands for the list that composition yields, and it is stored in
  the cache.
\<close>

definition build_dynamic_dependencies ::
  "constraint list \<Rightarrow> scheduler \<Rightarrow> constraint list \<times> scheduler" where
  "build_dynamic_dependencies resolved self =
     (case dynamic_constraints_cache self of
        Some cached \<Rightarrow> (cached, self)
      | None \<Rightarrow> (resolved, self\<lparr>dynamic_constraints_cache := Some resolved\<rparr>))"

text \<open>
  What a run reads from outside the scheduler object: the clock (\<open>datetime.now()\<close>, taken
  as one instant for the whole run), the interpreter's recursion limit, and the constraint
  list \<open>resolved\<close> above.
\<close>

record env =
  now :: datetime
  recursion_limit :: nat
  resolved_constraints :: "constraint list"

definition timedelta_days :: "timedelta \<Rightarrow> int" where
  \<comment> \<open>the \<open>.days\<close> attribute: whole days, rounded down\<close>
  "timedelta_days d = d div usec_per_day"

text \<open>
  The loop of \<open>get_path_length\<close> over the successors: the results in order, the first
  exception ending the loop.
\<close>

fun max_successor_path :: "int \<Rightarrow> (error + int) list \<Rightarrow> error + int" where
  "max_successor_path acc [] = Inr acc"
| "max_successor_path acc (Inl e # rs) = Inl e"
| "max_successor_path acc (Inr p # rs) = max_successor_path (max acc p) rs"

text \<open>
  \<open>get_path_length\<close>, with the depth of the recursion that is left. The memo
  \<open>_critical_path_cache\<close> is not threaded through: it holds values this function has
  computed from the same tasks and constraints.
\<close>

fun get_path_length ::
  "nat \<Rightarrow> (string, task_info) dict \<Rightarrow> constraint list \<Rightarrow> string \<Rightarrow> error + int" where
  "get_path_length 0 task_table cs task = Inl RecursionError"
| "get_path_length (Suc depth) task_table cs task =
     (case map_of task_table task of
        None \<Rightarrow> Inl KeyError
      | Some task_info \<Rightarrow>
          (case max_successor_path 0
                  (map (\<lambda>c. get_path_length depth task_table cs (c_Second c))
                     (filter (\<lambda>c. c_First c = task \<and> c_Second c \<in> set (keys task_table)) cs)) of
             Inl e \<Rightarrow> Inl e
           | Inr max_successor \<Rightarrow> Inr (ti_duration task_info + max_successor)))"

definition calculate_critical_path_length ::
  "nat \<Rightarrow> scheduler \<Rightarrow> constraint list \<Rightarrow> string \<Rightarrow> error + int" where
  "calculate_critical_path_length depth self cs task_instance_id =
     get_path_length depth (tasks self) cs task_instance_id"

definition truthy :: "string option \<Rightarrow> bool" where
  \<comment> \<open>a value that is neither \<open>None\<close> nor the empty string\<close>
  "truthy v = (case v of None \<Rightarrow> False | Some s \<Rightarrow> s \<noteq> [])"

definition dependent_priorities :: "scheduler \<Rightarrow> datetime \<Rightarrow> string list \<Rightarrow> int list" where
  \<comment> \<open>the priorities \<open>dep_priority\<close> of the dependents of a rework task that have a product
      with a delivery date\<close>
  "dependent_priorities self now_t dependent_tasks =
     concat (map (\<lambda>dep_task.
        case map_of (tasks self) dep_task of
          None \<Rightarrow> []
        | Some dep_task_info \<Rightarrow>
            (case ti_product dep_task_info of
               None \<Rightarrow> []
             | Some dep_product \<Rightarrow>
                 if dep_product = [] then []
                 else (case map_of (delivery_dates self) dep_product of
                         None \<Rightarrow> []
                       | Some delivery_date \<Rightarrow>
                           [(100 - timedelta_days (delivery_date - now_t)) * 20])))
       dependent_tasks)"

fun calculate_task_priority ::
  "nat \<Rightarrow> datetime \<Rightarrow> constraint list \<Rightarrow> scheduler \<Rightarrow> string \<Rightarrow> error + rat" where
  "calculate_task_priority 0 now_t cs self task_instance_id = Inl RecursionError"
| "calculate_task_priority (Suc depth) now_t cs self task_instance_id =
     (case map_of (tasks self) task_instance_id of
        None \<Rightarrow> Inl KeyError
      | Some task_info \<Rightarrow>
          if task_instance_id \<in> set (late_part_tasks self) then
            (case map_of (on_dock_dates self) task_instance_id of
               Some on_dock_date \<Rightarrow>
                 Inr (of_int (- 3000 + timedelta_days (on_dock_date - now_t) * 10))
             | None \<Rightarrow> Inr (- 3000))
          else if task_instance_id \<in> set (keys (quality_inspections self)) then
            (let primary_task = get_default (quality_inspections self) task_instance_id None
             in if truthy primary_task \<and> the primary_task \<in> set (keys (task_schedule self))
                then (case calculate_task_priority depth now_t cs self (the primary_task) of
                        Inl e \<Rightarrow> Inl e
                      | Inr p \<Rightarrow> Inr (p - 1))
                else Inr (- 2000))
          else if task_instance_id \<in> set (rework_tasks self) then
            (let dependent_tasks =
                   map c_Second (filter (\<lambda>c. c_First c = task_instance_id) cs);
                 ps = dependent_priorities self now_t dependent_tasks
             in if dependent_tasks \<noteq> [] \<and> ps \<noteq> []
                then Inr (of_int (Min (set ps) - 100))
                else Inr (- 500))
          else
            (let days_to_delivery =
                   (case ti_product task_info of
                      None \<Rightarrow> 999
                    | Some product \<Rightarrow>
                        if product = [] then 999
                        else (case map_of (delivery_dates self) product of
                                Some delivery_date \<Rightarrow> timedelta_days (delivery_date - now_t)
                              | None \<Rightarrow> 999))
             in case calculate_critical_path_length depth self cs task_instance_id of
                  Inl e \<Rightarrow> Inl e
                | Inr critical_path_length \<Rightarrow>
                    Inr (of_int ((100 - days_to_delivery) * 20)
                         + of_int ((10000 - critical_path_length) * 5)
                         + (100 - of_int (ti_duration task_info) / 10) * 2)))"

definition get_earliest_start_for_late_part :: "scheduler \<Rightarrow> string \<Rightarrow> datetime" where
  "get_earliest_start_for_late_part self task_instance_id =
     (case map_of (on_dock_dates self) task_instance_id of
        None \<Rightarrow> start_date
      | Some on_dock_date \<Rightarrow> replace_time_0600 (on_dock_date + late_part_delay self))"

text \<open>A primary and its inspection, nothing placed; the clock stands at the start datum.\<close>

definition with_inspection :: scheduler where
  "with_inspection = one_task\<lparr>
     tasks := [(''P_1'', \<lparr>ti_duration = 120, ti_team = Some ''M1'',
       ti_skill = None, ti_team_skill = PyStr ''M1'', ti_mechanics_required = 1,
       ti_is_quality = False, ti_is_customer = False, ti_task_type = ''Production'',
       ti_product = Some ''P''\<rparr>),
      (''P_QI_1'', \<lparr>ti_duration = 30, ti_team = Some ''Quality Team 1'',
       ti_skill = None, ti_team_skill = Absent, ti_mechanics_required = 1,
       ti_is_quality = True, ti_is_customer = False, ti_task_type = ''Quality Inspection'',
       ti_product = Some ''P''\<rparr>)],
     quality_inspections := [(''P_QI_1'', Some ''P_1'')],
     quality_team_capacity := [(''Quality Team 1'', 1)],
     quality_team_shifts := [(''Quality Team 1'', [''1st''])]\<rparr>"

definition inspection_constraints :: "constraint list" where
  "inspection_constraints =
     [\<lparr>c_First = ''P_1'', c_Second = ''P_QI_1'', c_Relationship = ''Finish = Start''\<rparr>]"

section \<open>The scheduling engine\<close>

definition is_digit :: "char \<Rightarrow> bool" where
  "is_digit c = (let n = (of_char c :: nat) in 48 \<le> n \<and> n \<le> 57)"

definition first_digits :: "string \<Rightarrow> string" where
  \<comment> \<open>group 1 of \<open>re.search(r'(\d+)', s)\<close>; empty when there is no match\<close>
  "first_digits s = takeWhile is_digit (dropWhile (\<lambda>c. \<not> is_digit c) s)"

definition map_mechanic_to_quality_team :: "scheduler \<Rightarrow> string option \<Rightarrow> string option" where
  "map_mechanic_to_quality_team self mechanic_team =
     (if \<not> truthy mechanic_team then None
      else (let team_number = first_digits (the mechanic_team);
                quality_team = ''Quality Team '' @ team_number
            in if team_number \<noteq> [] \<and> quality_team \<in> set (keys (quality_team_capacity self))
               then Some quality_team else None))"

fun before_sep :: "string \<Rightarrow> string \<Rightarrow> string" where
  \<comment> \<open>\<open>s.split(sep)[0]\<close> for a non-empty separator\<close>
  "before_sep sep [] = []"
| "before_sep sep (c # cs) =
     (if take (length sep) (c # cs) = sep then [] else c # before_sep sep cs)"

text \<open>
  \<open>heapq\<close> on tuples \<open>(priority, task_instance_id)\<close>: the heap is kept as the list of
  its items in the order of their insertion; \<open>heappop\<close> removes and returns the least
  item in the order of Python tuples (priority first, then the id as a string).
\<close>

type_synonym heap = "(rat \<times> string) list"

definition heappush :: "heap \<Rightarrow> rat \<times> string \<Rightarrow> heap" where
  "heappush h item = h @ [item]"

definition heappop :: "heap \<Rightarrow> (rat \<times> string) \<times> heap" where
  \<comment> \<open>on a non-empty heap\<close>
  "heappop h = (Min (set h), remove1 (Min (set h)) h)"

text \<open>The local variables of \<open>schedule_tasks\<close> that live across iterations.\<close>

record run_state =
  rs_self :: scheduler
  ready_tasks :: heap
  scheduled_count :: nat
  failed_tasks :: "string set"
  task_retry_counts :: "(string, nat) dict"

definition constraints_by_second :: "constraint list \<Rightarrow> string \<Rightarrow> constraint list" where
  "constraints_by_second cs task = filter (\<lambda>c. c_Second c = task) cs"

definition constraints_by_first :: "constraint list \<Rightarrow> string \<Rightarrow> constraint list" where
  "constraints_by_first cs task = filter (\<lambda>c. c_First c = task) cs"

definition validate_dag :: "constraint list \<Rightarrow> scheduler \<Rightarrow> bool" where
  \<comment> \<open>what the depth-first search decides: every endpoint is a task, and the
      \<open>Finish <= Start\<close> and \<open>Finish = Start\<close> edges have no cycle\<close>
  "validate_dag cs self =
     (set (map c_First cs) \<union> set (map c_Second cs) \<subseteq> set (keys (tasks self)) \<and>
      acyclic (set (map (\<lambda>c. (c_First c, c_Second c))
         (filter (\<lambda>c. c_Relationship c \<in> {''Finish <= Start'', ''Finish = Start''}) cs))))"

text \<open>
  Pushing a list of tasks with their priorities; an exception of the priority
  computation ends the loop with the state reached.
\<close>

fun push_all ::
  "env \<Rightarrow> constraint list \<Rightarrow> string list \<Rightarrow> run_state \<Rightarrow> error option \<times> run_state" where
  "push_all ev cs [] st = (None, st)"
| "push_all ev cs (task # rest) st =
     (case calculate_task_priority (recursion_limit ev) (now ev) cs (rs_self st) task of
        Inl e \<Rightarrow> (Some e, st)
      | Inr priority \<Rightarrow>
          push_all ev cs rest (st\<lparr>ready_tasks := heappush (ready_tasks st) (priority, task)\<rparr>))"

definition initially_ready :: "scheduler \<Rightarrow> constraint list \<Rightarrow> string list" where
  \<comment> \<open>the orphaned tasks, the tasks with only outgoing constraints, and the tasks
      with incoming constraints none of which is blocking, in the order of the three loops\<close>
  "initially_ready self cs =
     (let incoming = remdups (map c_Second cs);
          outgoing = remdups (map c_First cs)
      in filter (\<lambda>t. t \<notin> set incoming \<and> t \<notin> set outgoing) (keys (tasks self))
         @ filter (\<lambda>t. t \<notin> set incoming) outgoing
         @ filter (\<lambda>t. \<not> list_ex (\<lambda>c. c_Relationship c \<in>
                 {''Finish <= Start'', ''Finish = Start'', ''Finish <= Finish''})
               (constraints_by_second cs t)) incoming)"

definition predecessor_bounds ::
  "(string, sched_entry) dict \<Rightarrow> int \<Rightarrow> constraint list \<Rightarrow> datetime
     \<Rightarrow> datetime \<times> datetime option" where
  \<comment> \<open>the loop over the incoming constraints: \<open>(earliest_start, latest_start_constraint)\<close>\<close>
  "predecessor_bounds sched duration incoming earliest_start =
     fold (\<lambda>c (earliest, latest).
        case map_of sched (c_First c) of
          None \<Rightarrow> (earliest, latest)
        | Some first_schedule \<Rightarrow>
            (let relationship = c_Relationship c;
                 constraint_time =
                   (if relationship = ''Finish <= Start'' then se_end_time first_schedule
                    else if relationship = ''Finish = Start'' then se_end_time first_schedule
                    else if relationship = ''Start <= Start'' \<or> relationship = ''Start = Start''
                      then se_start_time first_schedule
                    else if relationship = ''Finish <= Finish''
                      then se_end_time first_schedule - minutes duration
                    else if relationship = ''Start <= Finish''
                      then se_start_time first_schedule - minutes duration
                    else se_end_time first_schedule)
             in (max earliest constraint_time,
                 if relationship = ''Start = Start''
                 then Some (se_start_time first_schedule) else latest)))
       incoming (earliest_start, None)"

definition earliest_start_for ::
  "scheduler \<Rightarrow> constraint list \<Rightarrow> string \<Rightarrow> int \<Rightarrow> datetime" where
  "earliest_start_for self cs task_instance_id duration =
     (let earliest_start =
            (if task_instance_id \<in> set (late_part_tasks self)
             then get_earliest_start_for_late_part self task_instance_id
             else start_date);
          (earliest, latest_start_constraint) =
            predecessor_bounds (task_schedule self) duration
              (constraints_by_second cs task_instance_id) earliest_start
      in case latest_start_constraint of Some t \<Rightarrow> t | None \<Rightarrow> earliest)"

text \<open>
  The outcome of the team and slot selection inside the \<open>try\<close> block: a slot
  \<open>(scheduled_start, shift, team_for_schedule, base_team_for_schedule)\<close>, no slot
  (with whether the third failure marks the task failed), or an exception.
\<close>

datatype attempt =
  Found datetime string string "string option"
| NoSlot bool
| Raised error

fun customer_search ::
  "scheduler \<Rightarrow> datetime \<Rightarrow> string option \<Rightarrow> int \<Rightarrow> int \<Rightarrow> (string \<times> int) list
     \<Rightarrow> (string \<times> datetime \<times> string) option \<Rightarrow> error + (string \<times> datetime \<times> string) option"
  where
  "customer_search self earliest_start product mechanics_needed duration [] best = Inr best"
| "customer_search self earliest_start product mechanics_needed duration
       ((team, capacity) # rest) best =
     (if capacity \<ge> mechanics_needed then
        (case get_next_working_time_with_capacity self earliest_start product team
                mechanics_needed duration False True of
           Inl e \<Rightarrow> Inl e
         | Inr None \<Rightarrow>
             customer_search self earliest_start product mechanics_needed duration rest best
         | Inr (Some (t, shift)) \<Rightarrow>
             if (case best of None \<Rightarrow> True | Some (bteam, bt, bshift) \<Rightarrow> t < bt)
             then customer_search self earliest_start product mechanics_needed duration rest
                    (Some (team, t, shift))
             else customer_search self earliest_start product mechanics_needed duration rest
                    best)
      else customer_search self earliest_start product mechanics_needed duration rest best)"

definition select_customer ::
  "scheduler \<Rightarrow> task_info \<Rightarrow> datetime \<Rightarrow> attempt" where
  "select_customer self task_info earliest_start =
     (case customer_search self earliest_start (ti_product task_info)
             (ti_mechanics_required task_info) (ti_duration task_info)
             (customer_team_capacity self) None of
        Inl e \<Rightarrow> Raised e
      | Inr None \<Rightarrow> NoSlot True
      | Inr (Some (best_team, best_start_time, best_shift)) \<Rightarrow>
          if best_team = [] then NoSlot True
          else Found best_start_time best_shift best_team (Some best_team))"

definition quality_team_for ::
  "scheduler \<Rightarrow> string \<Rightarrow> task_info \<Rightarrow> scheduler \<times> string option" where
  \<comment> \<open>the quality team of an inspection, with the recovery through its primary, which
      writes the primary's team into the task\<close>
  "quality_team_for self task_instance_id task_info =
     (let quality_team = map_mechanic_to_quality_team self (ti_team task_info)
      in if quality_team \<noteq> None then (self, quality_team)
         else if task_instance_id \<in> set (keys (quality_inspections self)) then
           (let primary_task_id =
                  get_default (quality_inspections self) task_instance_id None
            in case (if truthy primary_task_id
                     then map_of (tasks self) (the primary_task_id) else None) of
                 None \<Rightarrow> (self, None)
               | Some primary_info \<Rightarrow>
                   (let primary_team = ti_team primary_info;
                        recovered = map_mechanic_to_quality_team self primary_team
                    in if recovered \<noteq> None
                       then (self\<lparr>tasks := AList.update task_instance_id
                                (task_info\<lparr>ti_team := primary_team\<rparr>) (tasks self)\<rparr>,
                             recovered)
                       else (self, None)))
         else (self, None))"

definition select_quality ::
  "scheduler \<Rightarrow> string \<Rightarrow> task_info \<Rightarrow> datetime \<Rightarrow> scheduler \<times> attempt" where
  "select_quality self task_instance_id task_info earliest_start =
     (let (self', quality_team) = quality_team_for self task_instance_id task_info
      in case quality_team of
           None \<Rightarrow> (self', NoSlot False)
         | Some team \<Rightarrow>
             (case get_next_working_time_with_capacity self' earliest_start
                     (ti_product task_info) team (ti_mechanics_required task_info)
                     (ti_duration task_info) True False of
                Inl e \<Rightarrow> (self', Raised e)
              | Inr None \<Rightarrow> (self', NoSlot True)
              | Inr (Some (scheduled_start, shift)) \<Rightarrow>
                  (self', Found scheduled_start shift team (Some team))))"

definition select_mechanic :: "scheduler \<Rightarrow> task_info \<Rightarrow> datetime \<Rightarrow> attempt" where
  "select_mechanic self task_info earliest_start =
     (case (case ti_team_skill task_info of
              Absent \<Rightarrow> ti_team task_info
            | PyNone \<Rightarrow> None
            | PyStr s \<Rightarrow> Some s) of
        None \<Rightarrow> Raised TypeError
      | Some team_for_scheduling \<Rightarrow>
          (let base_team =
                 (if CHR ''('' \<in> set team_for_scheduling \<and> CHR '')'' \<in> set team_for_scheduling
                  then Some (strip (before_sep '' ('' team_for_scheduling))
                  else ti_team task_info)
           in case get_next_working_time_with_capacity self earliest_start
                     (ti_product task_info) team_for_scheduling
                     (ti_mechanics_required task_info) (ti_duration task_info) False False of
                Inl e \<Rightarrow> Raised e
              | Inr None \<Rightarrow> NoSlot True
              | Inr (Some (scheduled_start, shift)) \<Rightarrow>
                  Found scheduled_start shift team_for_scheduling base_team))"

definition select_slot ::
  "scheduler \<Rightarrow> string \<Rightarrow> task_info \<Rightarrow> datetime \<Rightarrow> scheduler \<times> attempt" where
  "select_slot self task_instance_id task_info earliest_start =
     (if ti_is_customer task_info then (self, select_customer self task_info earliest_start)
      else if ti_is_quality task_info
        then select_quality self task_instance_id task_info earliest_start
      else (self, select_mechanic self task_info earliest_start))"

definition requeue :: "run_state \<Rightarrow> rat \<Rightarrow> string \<Rightarrow> bool \<Rightarrow> run_state" where
  \<comment> \<open>one more failure of the task: back on the heap with a penalty, or given up\<close>
  "requeue st priority task_instance_id mark_failed =
     (let n = get_default (task_retry_counts st) task_instance_id 0 + 1;
          st' = st\<lparr>task_retry_counts :=
                  AList.update task_instance_id n (task_retry_counts st)\<rparr>
      in if n < 3
         then st'\<lparr>ready_tasks := heappush (ready_tasks st') (priority + 1 / 10, task_instance_id)\<rparr>
         else if mark_failed
         then st'\<lparr>failed_tasks := insert task_instance_id (failed_tasks st')\<rparr>
         else st')"

definition year_after_2030 :: "datetime \<Rightarrow> bool" where
  \<comment> \<open>\<open>t.year > 2030\<close>: 2031-01-01 is day 741442\<close>
  "year_after_2030 t = (t \<ge> days 741442)"

fun push_newly_ready ::
  "env \<Rightarrow> constraint list \<Rightarrow> constraint list \<Rightarrow> run_state \<Rightarrow> error option \<times> run_state" where
  "push_newly_ready ev cs [] st = (None, st)"
| "push_newly_ready ev cs (c # rest) st =
     (let dependent = c_Second c in
      if dependent \<in> set (keys (task_schedule (rs_self st))) \<or> dependent \<in> failed_tasks st
      then push_newly_ready ev cs rest st
      else if list_all (\<lambda>dc. c_First dc \<in> set (keys (task_schedule (rs_self st))))
                (constraints_by_second cs dependent)
              \<and> dependent \<notin> set (map snd (ready_tasks st))
      then (case calculate_task_priority (recursion_limit ev) (now ev) cs (rs_self st)
                   dependent of
              Inl e \<Rightarrow> (Some e, st)
            | Inr dep_priority \<Rightarrow>
                push_newly_ready ev cs rest
                  (st\<lparr>ready_tasks := heappush (ready_tasks st) (dep_priority, dependent)\<rparr>))
      else push_newly_ready ev cs rest st)"

definition new_entry ::
  "task_info \<Rightarrow> datetime \<Rightarrow> string \<Rightarrow> string \<Rightarrow> string option \<Rightarrow> sched_entry" where
  "new_entry task_info scheduled_start shift team_for_schedule base_team_for_schedule =
     \<lparr>se_start_time = scheduled_start,
      se_end_time = scheduled_start + minutes (ti_duration task_info),
      se_team = base_team_for_schedule,
      se_team_skill = team_for_schedule,
      se_skill = ti_skill task_info,
      se_product = ti_product task_info,
      se_duration = ti_duration task_info,
      se_mechanics_required = ti_mechanics_required task_info,
      se_is_quality = ti_is_quality task_info,
      se_is_customer = ti_is_customer task_info,
      se_task_type = ti_task_type task_info,
      se_shift = shift\<rparr>"

text \<open>
  One iteration of the main loop, entered with a non-empty heap. The only exception
  that leaves the loop is the \<open>KeyError\<close> of \<open>self.tasks[task_instance_id]\<close>, which
  is read before the \<open>try\<close> block.
\<close>

definition schedule_step ::
  "env \<Rightarrow> constraint list \<Rightarrow> run_state \<Rightarrow> error option \<times> run_state" where
  "schedule_step ev cs st =
     (let ((priority, task_instance_id), rest) = heappop (ready_tasks st);
          st1 = st\<lparr>ready_tasks := rest\<rparr>
      in if get_default (task_retry_counts st1) task_instance_id 0 \<ge> 3
         then (None, st1\<lparr>failed_tasks := insert task_instance_id (failed_tasks st1)\<rparr>)
         else
           (case map_of (tasks (rs_self st1)) task_instance_id of
              None \<Rightarrow> (Some KeyError, st1)
            | Some task_info \<Rightarrow>
                (let earliest_start =
                       earliest_start_for (rs_self st1) cs task_instance_id
                         (ti_duration task_info);
                     (self', outcome) =
                       select_slot (rs_self st1) task_instance_id task_info earliest_start;
                     st2 = st1\<lparr>rs_self := self'\<rparr>
                 in case outcome of
                      Raised e \<Rightarrow> (None, requeue st2 priority task_instance_id True)
                    | NoSlot mark_failed \<Rightarrow>
                        (None, requeue st2 priority task_instance_id mark_failed)
                    | Found scheduled_start shift team_for_schedule base_team_for_schedule \<Rightarrow>
                        if year_after_2030 scheduled_start
                        then (None, st2\<lparr>failed_tasks :=
                                 insert task_instance_id (failed_tasks st2)\<rparr>)
                        else
                          (let st3 = st2\<lparr>rs_self := self'\<lparr>task_schedule :=
                                   AList.update task_instance_id
                                     (new_entry task_info scheduled_start shift
                                        team_for_schedule base_team_for_schedule)
                                     (task_schedule self')\<rparr>,
                                 scheduled_count := scheduled_count st2 + 1\<rparr>
                           in case push_newly_ready ev cs
                                     (constraints_by_first cs task_instance_id) st3 of
                                (None, st4) \<Rightarrow> (None, st4)
                              | (Some e, st4) \<Rightarrow>
                                  (None, requeue st4 priority task_instance_id True)))))"

text \<open>
  The \<open>while\<close> loop; \<open>remaining\<close> counts down from \<open>max_iterations\<close>. (Its body
  starts with a block guarded by \<open>if not ready_tasks\<close>, which the loop condition makes
  unreachable.)
\<close>

fun schedule_loop ::
  "env \<Rightarrow> constraint list \<Rightarrow> nat \<Rightarrow> nat \<Rightarrow> run_state \<Rightarrow> error option \<times> run_state" where
  "schedule_loop ev cs total_tasks 0 st = (None, st)"
| "schedule_loop ev cs total_tasks (Suc remaining) st =
     (if ready_tasks st = [] \<or> \<not> scheduled_count st < total_tasks then (None, st)
      else (case schedule_step ev cs st of
              (Some e, st') \<Rightarrow> (Some e, st')
            | (None, st') \<Rightarrow> schedule_loop ev cs total_tasks remaining st'))"

text \<open>
  \<open>schedule_tasks\<close>: the exception that ended the run, if any, and the scheduler
  object as the run leaves it.
\<close>

definition schedule_tasks :: "env \<Rightarrow> bool \<Rightarrow> scheduler \<Rightarrow> error option \<times> scheduler" where
  "schedule_tasks ev silent_mode self =
     (let self1 = self\<lparr>task_schedule := [], critical_path_cache := []\<rparr>;
          (cs, self2) = build_dynamic_dependencies (resolved_constraints ev) self1
      in if \<not> silent_mode \<and> \<not> validate_dag cs self2 then (Some ValueError, self2)
         else
           (let total_tasks = length (tasks self2);
                st0 = \<lparr>rs_self = self2, ready_tasks = [], scheduled_count = 0,
                       failed_tasks = {}, task_retry_counts = []\<rparr>
            in case push_all ev cs (initially_ready self2 cs) st0 of
                 (Some e, st) \<Rightarrow> (Some e, rs_self st)
               | (None, st) \<Rightarrow>
                   (case schedule_loop ev cs total_tasks (total_tasks * 10) st of
                      (e, st') \<Rightarrow> (e, rs_self st'))))"

section \<open>Capacity of a team and its load at an instant\<close>











section \<open>Example: two successors of equal priority\<close>

text \<open>
  Product \<open>P\<close> with the tasks 1, 2, 3 on team \<open>M1\<close> (capacity 1) and the precedence
  rows \<open>1 \<rightarrow> 3\<close> and \<open>1 \<rightarrow> 2\<close>, in this order. Tasks 2 and 3 have the same duration and
  no successors, hence the same priority.
\<close>

definition production_task :: "int \<Rightarrow> task_info" where
  "production_task duration = \<lparr>ti_duration = duration, ti_team = Some ''M1'',
       ti_skill = None, ti_team_skill = PyStr ''M1'', ti_mechanics_required = 1,
       ti_is_quality = False, ti_is_customer = False, ti_task_type = ''Production'',
       ti_product = Some ''P''\<rparr>"





section \<open>Late parts\<close>


definition late_bound :: "scheduler \<Rightarrow> datetime \<Rightarrow> datetime" where
  \<comment> \<open>the on-dock date plus the configured delay, set to 06:00 of that day\<close>
  "late_bound self on_dock_date = replace_time_0600 (on_dock_date + late_part_delay self)"

definition not_pinned :: "constraint list \<Rightarrow> string \<Rightarrow> bool" where
  \<comment> \<open>no \<open>Start = Start\<close> constraint ends at the task\<close>
  "not_pinned cs task =
     list_all (\<lambda>c. c_Second c = task \<longrightarrow> c_Relationship c \<noteq> ''Start = Start'') cs"

definition late_parts_bounded :: "scheduler \<Rightarrow> constraint list \<Rightarrow> scheduler \<Rightarrow> bool" where
  \<comment> \<open>the invariant of a run started on \<open>self0\<close>\<close>
  "late_parts_bounded self0 cs self =
     (late_part_tasks self = late_part_tasks self0 \<and>
      on_dock_dates self = on_dock_dates self0 \<and>
      late_part_delay self = late_part_delay self0 \<and>
      (\<forall>(task, e) \<in> set (task_schedule self).
         task \<in> set (late_part_tasks self0) \<longrightarrow> not_pinned cs task \<longrightarrow>
         (\<forall>on_dock_date. map_of (on_dock_dates self0) task = Some on_dock_date \<longrightarrow>
            late_bound self0 on_dock_date \<le> se_start_time e)))"




section \<open>Capacity scenarios\<close>

text \<open>
  A capacity configuration \<open>{'mechanic': {...}, 'quality': {...}}\<close>;
  \<open>copy_configuration\<close> is the identity on values.
\<close>

record configuration =
  cfg_mechanic :: "(string, int) dict"
  cfg_quality :: "(string, int) dict"

definition assign_all :: "('k, 'v) dict \<Rightarrow> ('k, 'v) dict \<Rightarrow> ('k, 'v) dict" where
  \<comment> \<open>\<open>for k, v in items.items(): target[k] = v\<close>\<close>
  "assign_all target items = fold (\<lambda>(k, v) d. AList.update k v d) items target"

definition apply_capacity_configuration :: "scheduler \<Rightarrow> configuration \<Rightarrow> scheduler" where
  "apply_capacity_configuration self config =
     self\<lparr>team_capacity := assign_all (team_capacity self) (cfg_mechanic config),
          quality_team_capacity := assign_all (quality_team_capacity self) (cfg_quality config)\<rparr>"

definition set_uniform_capacities :: "scheduler \<Rightarrow> int \<Rightarrow> int \<Rightarrow> scheduler" where
  \<comment> \<open>the two loops of scenario 2 that set every team to the tested value\<close>
  "set_uniform_capacities self mech_capacity qual_capacity =
     self\<lparr>team_capacity := map (\<lambda>(team, c). (team, mech_capacity)) (team_capacity self),
          quality_team_capacity :=
            map (\<lambda>(team, c). (team, qual_capacity)) (quality_team_capacity self)\<rparr>"

definition clear_previous_schedule :: "scheduler \<Rightarrow> scheduler" where
  \<comment> \<open>\<open>self.task_schedule = {}; self._critical_path_cache = {}\<close>\<close>
  "clear_previous_schedule self = self\<lparr>task_schedule := [], critical_path_cache := []\<rparr>"

definition restore_original_capacities :: "scheduler \<Rightarrow> scheduler" where
  \<comment> \<open>the two loops under \<open># Restore original capacities\<close>; the copies taken at the
      start of a scenario equal the tables \<open>_original_*\<close>, which are written at load only\<close>
  "restore_original_capacities self =
     self\<lparr>team_capacity := assign_all (team_capacity self) (original_team_capacity self),
          quality_team_capacity :=
            assign_all (quality_team_capacity self) (original_quality_capacity self)\<rparr>"

definition scenario_2_prepare :: "scheduler \<Rightarrow> int \<Rightarrow> int \<Rightarrow> scheduler" where
  \<comment> \<open>an iteration of scenario 2 up to the \<open>try\<close> block\<close>
  "scenario_2_prepare self mech_capacity qual_capacity =
     clear_previous_schedule (set_uniform_capacities self mech_capacity qual_capacity)"

definition scenario_3_prepare :: "scheduler \<Rightarrow> configuration \<Rightarrow> scheduler" where
  \<comment> \<open>an iteration of scenario 3 up to the \<open>try\<close> block\<close>
  "scenario_3_prepare self current_config =
     clear_previous_schedule (apply_capacity_configuration self current_config)"

subsection \<open>Scenario 2\<close>

record search_state =
  mech_low :: int
  mech_high :: int
  qual_low :: int
  qual_high :: int
  best_makespan :: "int option"
  best_config :: "(int \<times> int) option"

text \<open>
  The binary search. \<open>generate_global_priority_list\<close> is \<open>schedule_tasks\<close> followed by
  the ranking of the records, which writes neither the schedule nor a capacity table;
  whether that ranking raises in an iteration is given by the list \<open>raised\<close>.
  \<open>best_makespan = None\<close> is \<open>float('inf')\<close>.
\<close>

fun scenario_2_loop ::
  "env \<Rightarrow> bool list \<Rightarrow> nat \<Rightarrow> search_state \<Rightarrow> scheduler \<Rightarrow> search_state \<times> scheduler" where
  "scenario_2_loop ev raised 0 b self = (b, self)"
| "scenario_2_loop ev raised (Suc remaining) b self =
     (let mech_capacity = (mech_low b + mech_high b) div 2;
          qual_capacity = (qual_low b + qual_high b) div 2;
          (err, self') =
            schedule_tasks ev True (scenario_2_prepare self mech_capacity qual_capacity);
          b' =
            (if err \<noteq> None \<or> (raised \<noteq> [] \<and> hd raised)
             then b\<lparr>mech_low := mech_capacity + 1, qual_low := qual_capacity + 1\<rparr>
             else if length (task_schedule self') = length (tasks self')
             then (let makespan = calculate_makespan self';
                       better = (case best_makespan b of None \<Rightarrow> True | Some m \<Rightarrow> makespan < m)
                   in (if better
                       then b\<lparr>best_makespan := Some makespan,
                              best_config := Some (mech_capacity, qual_capacity)\<rparr>
                       else b)\<lparr>mech_high := mech_capacity - 1, qual_high := qual_capacity - 1\<rparr>)
             else b\<lparr>mech_low := mech_capacity + 1, qual_low := qual_capacity + 1\<rparr>)
      in if mech_low b' > mech_high b' \<or> qual_low b' > qual_high b' then (b', self')
         else scenario_2_loop ev (tl raised) remaining b' self')"

definition scenario_2_minimize_makespan ::
  "env \<Rightarrow> bool list \<Rightarrow> int \<Rightarrow> int \<Rightarrow> int \<Rightarrow> int \<Rightarrow> scheduler
     \<Rightarrow> ((int \<times> int) \<times> int) option \<times> scheduler" where
  "scenario_2_minimize_makespan ev raised min_mechanics max_mechanics min_quality max_quality
       self =
     (let (b, self') =
            scenario_2_loop ev raised 20
              \<lparr>mech_low = min_mechanics, mech_high = max_mechanics, qual_low = min_quality,
               qual_high = max_quality, best_makespan = None, best_config = None\<rparr> self
      in (case (best_config b, best_makespan b) of
            (Some c, Some m) \<Rightarrow> Some (c, m)
          | _ \<Rightarrow> None,
          restore_original_capacities self'))"

subsection \<open>Scenario 3\<close>

fun contains :: "string \<Rightarrow> string \<Rightarrow> bool" where
  \<comment> \<open>\<open>sub in s\<close>\<close>
  "contains sub [] = (sub = [])"
| "contains sub (c # cs) = (take (length sub) (c # cs) = sub \<or> contains sub cs)"

definition scheduling_team :: "task_info \<Rightarrow> string option" where
  \<comment> \<open>\<open>task_info.get('team_skill', task_info.get('team'))\<close>\<close>
  "scheduling_team task_info =
     (case ti_team_skill task_info of
        Absent \<Rightarrow> ti_team task_info
      | PyNone \<Rightarrow> None
      | PyStr s \<Rightarrow> Some s)"

definition raise_requirement :: "(string, int) dict \<Rightarrow> string option \<Rightarrow> int \<Rightarrow> (string, int) dict"
  where
  "raise_requirement min_requirements team n =
     (if truthy team \<and> the team \<in> set (keys min_requirements)
      then AList.update (the team) (max (get_default min_requirements (the team) 0) n)
             min_requirements
      else min_requirements)"

definition calculate_minimum_team_requirements :: "scheduler \<Rightarrow> (string, int) dict" where
  \<comment> \<open>the \<open>headcount\<close> of a quality inspection is the number the loader also stores as
      the \<open>mechanics_required\<close> of its task\<close>
  "calculate_minimum_team_requirements self =
     (let zero = assign_all (map (\<lambda>(team, c). (team, 0)) (team_capacity self))
                   (map (\<lambda>(team, c). (team, 0)) (quality_team_capacity self));
          by_task = fold (\<lambda>(task_id, task_info) m.
                       raise_requirement m (scheduling_team task_info)
                         (ti_mechanics_required task_info)) (tasks self) zero
      in fold (\<lambda>(qi_id, primary) m.
                 case map_of (tasks self) qi_id of
                   None \<Rightarrow> m
                 | Some qi_info \<Rightarrow>
                     raise_requirement m (ti_team qi_info) (ti_mechanics_required qi_info))
           (quality_inspections self) by_task)"

definition initialize_moderate_capacity :: "scheduler \<Rightarrow> configuration" where
  "initialize_moderate_capacity self =
     (let min_requirements = calculate_minimum_team_requirements self
      in \<lparr>cfg_mechanic = map (\<lambda>(team, c).
              (team, max (get_default min_requirements team 2 + 2) 5))
              (original_team_capacity self),
          cfg_quality = map (\<lambda>(team, c).
              (team, max (get_default min_requirements team 1 + 1) 3))
              (original_quality_capacity self)\<rparr>)"

definition fix_unscheduled_tasks :: "scheduler \<Rightarrow> configuration \<Rightarrow> configuration" where
  "fix_unscheduled_tasks self config =
     fold (\<lambda>(task_id, task_info) new_config.
        if task_id \<notin> set (keys (task_schedule self)) then
          (case scheduling_team task_info of
             None \<Rightarrow> new_config
           | Some team \<Rightarrow>
               if team = [] then new_config
               else if contains ''Quality'' team
               then new_config\<lparr>cfg_quality := AList.update team
                      (get_default (cfg_quality new_config) team 0 + 1) (cfg_quality new_config)\<rparr>
               else new_config\<lparr>cfg_mechanic := AList.update team
                      (get_default (cfg_mechanic new_config) team 0 + 1)
                      (cfg_mechanic new_config)\<rparr>)
        else new_config)
       (tasks self) config"

definition increase_all_capacity :: "configuration \<Rightarrow> int \<Rightarrow> configuration" where
  "increase_all_capacity config amount =
     \<lparr>cfg_mechanic = map (\<lambda>(team, c). (team, c + amount)) (cfg_mechanic config),
      cfg_quality = map (\<lambda>(team, c). (team, c + amount)) (cfg_quality config)\<rparr>"

text \<open>
  What an iteration of the annealing loop takes from computations that are not
  modelled (the ranking and the delivery metrics, the score in floating point, the
  random draws): whether the \<open>try\<close> block raised, whether the score improved on the
  best, whether a worse solution was accepted, whether the loop breaks at the
  target, and the configuration the random neighbour move returns when every task
  is placed.
\<close>

record sa_decision =
  sa_raised :: bool
  sa_improved :: bool
  sa_accepted :: bool
  sa_stop :: bool
  sa_neighbor :: configuration

fun scenario_3_loop ::
  "env \<Rightarrow> sa_decision list \<Rightarrow> configuration \<Rightarrow> configuration \<Rightarrow> scheduler
     \<Rightarrow> configuration \<times> scheduler" where
  "scenario_3_loop ev [] current_config best self = (best, self)"
| "scenario_3_loop ev (d # ds) current_config best self =
     (let (err, self') = schedule_tasks ev True (scenario_3_prepare self current_config)
      in if err \<noteq> None \<or> sa_raised d
         then scenario_3_loop ev ds (increase_all_capacity current_config 2) best self'
         else
           (let best' = (if sa_improved d then current_config else best);
                current' = (if sa_improved d \<or> sa_accepted d then current_config else best)
            in if sa_improved d \<and> sa_stop d then (best', self')
               else scenario_3_loop ev ds
                      (if length (task_schedule self') < length (tasks self')
                       then fix_unscheduled_tasks self' current'
                       else sa_neighbor d)
                      best' self'))"

definition scenario_3_simulated_annealing ::
  "env \<Rightarrow> sa_decision list \<Rightarrow> scheduler \<Rightarrow> configuration \<times> scheduler" where
  \<comment> \<open>one decision for each of the \<open>max_iterations\<close> iterations\<close>
  "scenario_3_simulated_annealing ev decisions self =
     (let current_config = initialize_moderate_capacity self;
          (best, self') = scenario_3_loop ev decisions current_config current_config self
      in (best, restore_original_capacities self'))"

subsection \<open>Example: an inspection that cannot be placed\<close>

text \<open>
  Product \<open>P\<close> with one task of 540 minutes on \<open>M1\<close> (the first shift has 510) and a
  customer inspection \<open>CC_601\<close> on it; mechanic table \<open>M1: 1\<close>, customer table
  \<open>Customer Team 1: 1\<close>. The state is the one the loader leaves.
\<close>

definition customer_inspection_task :: task_info where
  "customer_inspection_task = \<lparr>ti_duration = 30, ti_team = Some ''Customer Team 1'',
       ti_skill = None, ti_team_skill = PyStr ''Customer Team 1'', ti_mechanics_required = 1,
       ti_is_quality = False, ti_is_customer = True, ti_task_type = ''Customer'',
       ti_product = Some ''P''\<rparr>"

definition too_long :: scheduler where
  "too_long = one_task\<lparr>
     tasks := [(''P_1'', production_task 540), (''P_CC_601'', customer_inspection_task)],
     original_team_capacity := [(''M1'', 1)],
     customer_team_capacity := [(''Customer Team 1'', 1)],
     customer_team_shifts := [(''Customer Team 1'', [''1st''])]\<rparr>"

definition too_long_env :: env where
  "too_long_env = \<lparr>now = start_date, recursion_limit = 1000,
     resolved_constraints =
       [\<lparr>c_First = ''P_1'', c_Second = ''P_CC_601'', c_Relationship = ''Finish = Start''\<rparr>]\<rparr>"

definition first_decision :: sa_decision where
  \<comment> \<open>nothing raises, and any finite score improves on the initial \<open>float('inf')\<close>\<close>
  "first_decision = \<lparr>sa_raised = False, sa_improved = True, sa_accepted = False,
     sa_stop = False, sa_neighbor = \<lparr>cfg_mechanic = [], cfg_quality = []\<rparr>\<rparr>"

section \<open>Verified properties\<close>

subsection \<open>Constraint checking\<close>

text \<open>
  C10. Whatever the relationship, \<open>check_constraint_satisfied\<close> returns
  \<open>(True, None, None)\<close> as soon as one of the two endpoints has no schedule record:
  a constraint with an unplaced endpoint is never reported violated.
\<close>

theorem check_constraint_unplaced:
  "check_constraint_satisfied None s rel = (True, None, None) \<and>
   check_constraint_satisfied f None rel = (True, None, None)"
  by (cases f) (simp_all add: check_constraint_satisfied_def)

text \<open>
  C9 (as the code has it). A missing or empty relationship normalizes to
  \<open>Finish <= Start\<close>. A non-empty relationship whose whitespace-stripped form is not a key
  of the alias table normalizes to that stripped form (so it is returned unchanged when
  it carries no surrounding whitespace). When the stripped form is neither an alias nor
  one of the six normalized names, constraint checking takes the final branch, which
  computes exactly what \<open>Finish <= Start\<close> computes: satisfied iff the first record's end is
  at most the second record's start.
\<close>

theorem normalize_unrecognized:
  "normalize_relationship_type None = ''Finish <= Start'' \<and>
   normalize_relationship_type (Some []) = ''Finish <= Start'' \<and>
   (r \<noteq> [] \<and> strip r \<notin> recognized_aliases \<longrightarrow>
      normalize_relationship_type (Some r) = strip r) \<and>
   (strip r \<notin> recognized_aliases \<union> canonical_names \<longrightarrow>
      check_constraint_satisfied (Some f) (Some s) (Some r) =
        (st_end f \<le> st_start s, Some (st_end f), Some (st_end f + minutes (st_duration s))))"
proof -
  have a: "normalize_relationship_type None = ''Finish <= Start''"
    by (simp add: normalize_relationship_type_def)
  have b: "normalize_relationship_type (Some []) = ''Finish <= Start''"
    by (simp add: normalize_relationship_type_def)
  have c: "normalize_relationship_type (Some r) = strip r"
    if "r \<noteq> []" "strip r \<notin> recognized_aliases"
  proof -
    from that(2) have "map_of mappings (strip r) = None"
      unfolding recognized_aliases_def by (simp add: map_of_eq_None_iff)
    with that(1) show ?thesis by (simp add: normalize_relationship_type_def)
  qed
  have d: "check_constraint_satisfied (Some f) (Some s) (Some r) =
        (st_end f \<le> st_start s, Some (st_end f), Some (st_end f + minutes (st_duration s)))"
    if h: "strip r \<notin> recognized_aliases \<union> canonical_names"
  proof (cases "r = []")
    case True
    then show ?thesis by (simp add: check_constraint_satisfied_def b Let_def)
  next
    case False
    with h have n: "normalize_relationship_type (Some r) = strip r" by (simp add: c)
    from h have "strip r \<notin> canonical_names" by simp
    then show ?thesis
      unfolding check_constraint_satisfied_def n canonical_names_def by (simp add: Let_def)
  qed
  from a b c d show ?thesis by blast
qed

theorem normalize_unrecognized_witness:
  "normalize_relationship_type (Some '' foo '') = ''foo'' \<and>
   check_constraint_satisfied (Some \<lparr>st_start = 0, st_end = 5, st_duration = 1\<rparr>)
      (Some \<lparr>st_start = 3, st_end = 9, st_duration = 1\<rparr>) (Some '' foo '') =
     (False, Some 5, Some (5 + minutes 1))"
proof -
  have s: "strip '' foo '' = ''foo''"
    by (simp add: strip_def is_space_def)
  have 1: "''foo'' \<notin> recognized_aliases"
    by (simp add: recognized_aliases_def mappings_def)
  have 2: "''foo'' \<notin> recognized_aliases \<union> canonical_names"
    by (simp add: recognized_aliases_def mappings_def canonical_names_def)
  show ?thesis
    using normalize_unrecognized [of "'' foo ''" "\<lparr>st_start = 0, st_end = 5, st_duration = 1\<rparr>"
        "\<lparr>st_start = 3, st_end = 9, st_duration = 1\<rparr>"] 1 2
    by (simp add: s)
qed

text \<open>
  The string \<open>" x"\<close> is not an alias, yet normalization does not return it unchanged;
  the string \<open>" F=S"\<close> is neither an alias nor a normalized name, yet it is checked as
  \<open>Finish = Start\<close> (with its tolerance) and not as \<open>Finish <= Start\<close>.
\<close>

theorem normalize_padded_counterexample:
  "'' x'' \<notin> recognized_aliases \<and> normalize_relationship_type (Some '' x'') \<noteq> '' x'' \<and>
   '' F=S'' \<notin> recognized_aliases \<and> '' F=S'' \<notin> canonical_names \<and>
   fst (check_constraint_satisfied (Some \<lparr>st_start = 0, st_end = 0, st_duration = 0\<rparr>)
      (Some \<lparr>st_start = 1000000000, st_end = 1000000000, st_duration = 0\<rparr>) (Some '' F=S''))
     \<noteq> (st_end \<lparr>st_start = 0, st_end = 0, st_duration = 0\<rparr>
           \<le> st_start \<lparr>st_start = 1000000000, st_end = 1000000000, st_duration = 0\<rparr>)"
  by (simp add: recognized_aliases_def canonical_names_def mappings_def
      normalize_relationship_type_def check_constraint_satisfied_def strip_def is_space_def
      usec_per_second_def Let_def)

subsection \<open>The slot search\<close>











subsection \<open>Makespan\<close>

lemma count_working_days_card:
  "count_working_days self current end_date working_days =
     working_days + int (card {d. current \<le> d \<and> d \<le> end_date \<and> any_product_works self d})"
proof (induction self current end_date working_days rule: count_working_days.induct)
  case (1 self current end_date working_days)
  let ?S = "\<lambda>c. {d. c \<le> d \<and> d \<le> end_date \<and> any_product_works self d}"
  show ?case
  proof (cases "current \<le> end_date")
    case False
    then have "?S current = {}" by auto
    then have "card (?S current) = 0" by (simp only: card.empty)
    with False show ?thesis
      by (subst count_working_days.simps) (simp only: if_False of_nat_0 add_0_right)
  next
    case True
    have fin: "finite (?S (current + 1))"
      by (rule finite_subset[of _ "{current + 1..end_date}"]) auto
    have step: "\<And>d. (current \<le> d) = (d = current \<or> current + 1 \<le> d)" by linarith
    show ?thesis
    proof (cases "any_product_works self current")
      case w: True
      have eq: "?S current = insert current (?S (current + 1))"
        using True w by (auto simp: step)
      have nin: "current \<notin> ?S (current + 1)" by simp
      have c: "card (?S current) = Suc (card (?S (current + 1)))"
        by (simp only: eq card_insert_disjoint[OF fin nin])
      have "count_working_days self current end_date working_days =
            count_working_days self (current + 1) end_date (working_days + 1)"
        using True w by (subst count_working_days.simps) simp
      also have "\<dots> = working_days + 1 + int (card (?S (current + 1)))"
        using "1.IH"[OF True] w by simp
      finally show ?thesis using c by simp
    next
      case w: False
      have e: "?S current = ?S (current + 1)"
        using True w by (auto simp: step)
      have "count_working_days self current end_date working_days =
            count_working_days self (current + 1) end_date working_days"
        using True w by (subst count_working_days.simps) simp
      also have "\<dots> = working_days + int (card (?S (current + 1)))"
        using "1.IH"[OF True] w by simp
      finally show ?thesis using e by simp
    qed
  qed
qed

text \<open>
  C3 (as the code has it). \<open>calculate_makespan\<close> returns 0 when the schedule is empty;
  otherwise 999999 when the schedule has fewer records than there are instances;
  otherwise the number of calendar days, from the day of the earliest scheduled start to
  the day of the latest scheduled end inclusive, that are working days of at least one
  product with a delivery date.
\<close>

theorem calculate_makespan_cases:
  "calculate_makespan self =
     (if task_schedule self = [] then 0
      else if length (task_schedule self) < length (tasks self) then 999999
      else int (card {d. date_of (earliest_start_time (task_schedule self)) \<le> d \<and>
                         d \<le> date_of (latest_end_time (task_schedule self)) \<and>
                         (\<exists>product \<in> set (keys (delivery_dates self)).
                            is_working_day self (days d) (Some product))}))"
  by (simp add: calculate_makespan_def count_working_days_card any_product_works_def
      list_ex_iff)

theorem calculate_makespan_cases_witness:
  "calculate_makespan one_task_placed = 1"
proof -
  have "calculate_makespan one_task_placed = 1" by code_simp
  then show ?thesis using calculate_makespan_cases[of one_task_placed] by simp
qed

text \<open>
  With one instance and an empty schedule the instance is unscheduled, and the result is
  0, not the sentinel.
\<close>

theorem calculate_makespan_empty_counterexample:
  "length (task_schedule one_task) < length (tasks one_task) \<and>
   calculate_makespan one_task = 0 \<and> calculate_makespan one_task \<noteq> 999999"
  by (simp add: calculate_makespan_def one_task_def one_team_def init_scheduler_def)

subsection \<open>Priorities\<close>




subsection \<open>The capacity invariant of the scheduling engine\<close>














lemma rs_self_requeue [simp]: "rs_self (requeue st priority tid mark) = rs_self st"
  by (simp add: requeue_def Let_def)

lemma rs_self_push_newly_ready [simp]:
  "rs_self (snd (push_newly_ready ev cs xs st)) = rs_self st"
  by (induction xs arbitrary: st) (auto simp: Let_def split: sum.splits)

lemma rs_self_push_all [simp]: "rs_self (snd (push_all ev cs xs st)) = rs_self st"
  by (induction xs arbitrary: st) (auto split: sum.splits)








subsection \<open>The ready heap\<close>





subsection \<open>The lower bound of late parts\<close>



lemma earliest_start_for_tasks [simp]:
  "earliest_start_for (self\<lparr>tasks := x\<rparr>) cs task duration
     = earliest_start_for self cs task duration"
proof -
  have "get_earliest_start_for_late_part (self\<lparr>tasks := x\<rparr>) task
      = get_earliest_start_for_late_part self task"
    by (cases "map_of (on_dock_dates self) task")
       (simp_all add: get_earliest_start_for_late_part_def)
  then show ?thesis by (simp add: earliest_start_for_def)
qed



lemma late_parts_bounded_tasks [simp]:
  "late_parts_bounded self0 cs (self\<lparr>tasks := x\<rparr>) = late_parts_bounded self0 cs self"
  by (simp add: late_parts_bounded_def)








subsection \<open>The reset between scenario runs\<close>

text \<open>
  C4 (as the code has it). In an iteration of scenario 2 and of scenario 3, after the
  capacities are written and before rescheduling, the schedule records and the
  critical-path cache are cleared; the memoized constraint list is left as it is, and
  when it is set the run that follows works with the memoized list without composing
  the constraints again.
\<close>

theorem scenario_reset_keeps_constraint_cache:
  "task_schedule (scenario_2_prepare self m q) = [] \<and>
   critical_path_cache (scenario_2_prepare self m q) = [] \<and>
   dynamic_constraints_cache (scenario_2_prepare self m q) = dynamic_constraints_cache self \<and>
   task_schedule (scenario_3_prepare self config) = [] \<and>
   critical_path_cache (scenario_3_prepare self config) = [] \<and>
   dynamic_constraints_cache (scenario_3_prepare self config) = dynamic_constraints_cache self \<and>
   (dynamic_constraints_cache self = Some cached \<longrightarrow>
      build_dynamic_dependencies resolved (scenario_2_prepare self m q)
        = (cached, scenario_2_prepare self m q) \<and>
      build_dynamic_dependencies resolved (scenario_3_prepare self config)
        = (cached, scenario_3_prepare self config))"
  by (simp add: scenario_2_prepare_def scenario_3_prepare_def clear_previous_schedule_def
      set_uniform_capacities_def apply_capacity_configuration_def
      build_dynamic_dependencies_def)

theorem scenario_reset_keeps_constraint_cache_witness:
  "dynamic_constraints_cache (with_inspection\<lparr>dynamic_constraints_cache :=
       Some inspection_constraints\<rparr>) = Some inspection_constraints \<and>
   fst (build_dynamic_dependencies []
     (scenario_2_prepare (with_inspection\<lparr>dynamic_constraints_cache :=
        Some inspection_constraints\<rparr>) 5 5)) = inspection_constraints \<and>
   fst (build_dynamic_dependencies []
     (scenario_3_prepare (with_inspection\<lparr>dynamic_constraints_cache :=
        Some inspection_constraints\<rparr>) \<lparr>cfg_mechanic = [(''M1'', 5)], cfg_quality = []\<rparr>))
     = inspection_constraints"
proof -
  let ?s = "with_inspection\<lparr>dynamic_constraints_cache := Some inspection_constraints\<rparr>"
  have c: "dynamic_constraints_cache ?s = Some inspection_constraints" by simp
  from scenario_reset_keeps_constraint_cache[of ?s 5 5
      "\<lparr>cfg_mechanic = [(''M1'', 5)], cfg_quality = []\<rparr>" inspection_constraints "[]"] c
  show ?thesis by simp
qed

text \<open>
  After the reset of either scenario the memoized constraint list is still there, and
  \<open>build_dynamic_dependencies\<close> returns it although the tables would now resolve to
  another list (here the empty one).
\<close>

theorem scenario_reset_counterexample:
  "dynamic_constraints_cache (scenario_2_prepare (with_inspection\<lparr>dynamic_constraints_cache :=
       Some inspection_constraints\<rparr>) 5 5) \<noteq> None \<and>
   dynamic_constraints_cache (scenario_3_prepare (with_inspection\<lparr>dynamic_constraints_cache :=
       Some inspection_constraints\<rparr>) \<lparr>cfg_mechanic = [(''M1'', 5)], cfg_quality = []\<rparr>) \<noteq> None \<and>
   fst (build_dynamic_dependencies []
     (scenario_2_prepare (with_inspection\<lparr>dynamic_constraints_cache :=
        Some inspection_constraints\<rparr>) 5 5)) \<noteq> []"
  by (simp add: scenario_2_prepare_def scenario_3_prepare_def clear_previous_schedule_def
      set_uniform_capacities_def apply_capacity_configuration_def
      build_dynamic_dependencies_def inspection_constraints_def)

subsection \<open>Capacities after a scenario\<close>

text \<open>
  C7 fails on the code. On \<open>too_long\<close> the capacity tables equal the original ones, as
  the loader leaves them. In the first iteration of scenario 3 nothing can be placed,
  so \<open>fix_unscheduled_tasks\<close> enters \<open>Customer Team 1\<close>, the team of the unplaced
  customer inspection, into the mechanic part of the configuration; the second
  iteration writes it into \<open>team_capacity\<close>, and the restoring loop, which runs over
  the keys of the original table, leaves it there.
\<close>

theorem scenario_3_leaves_extra_team:
  "team_capacity too_long = original_team_capacity too_long \<and>
   quality_team_capacity too_long = original_quality_capacity too_long \<and>
   task_schedule (snd (schedule_tasks too_long_env True
      (scenario_3_prepare too_long (initialize_moderate_capacity too_long)))) = [] \<and>
   team_capacity (snd (scenario_3_simulated_annealing too_long_env
      [first_decision, first_decision\<lparr>sa_improved := False\<rparr>] too_long))
     = [(''M1'', 1), (''Customer Team 1'', 1)] \<and>
   original_team_capacity (snd (scenario_3_simulated_annealing too_long_env
      [first_decision, first_decision\<lparr>sa_improved := False\<rparr>] too_long))
     = [(''M1'', 1)]"
  by code_simp

end
